theory Spec2Isabelle
  imports Main "HOL-Library.Multiset"
begin

section \<open>canvas.ts: drawing data and the CanvasDrawing class\<close>

text \<open>
  Field names carry a prefix (\<open>path_\<close>, \<open>op_\<close>, \<open>msg_\<close>, \<open>cv_\<close>, \<open>rt_\<close>) because the
  TypeScript interfaces share names such as \<open>userId\<close>, \<open>path\<close> and \<open>color\<close>.
  Coordinates, widths and clock readings are JavaScript numbers; no transition below
  computes with them except the cursor throttle and the counter increment, so they are
  integers here.
\<close>

record DrawingPoint =
  point_x :: int
  point_y :: int

datatype Tool = brush | eraser

record DrawingPath =
  path_points :: "DrawingPoint list"
  path_color :: string
  path_width :: int
  path_tool :: Tool

text \<open>
  The \<open>path\<close> an operation holds. An operation built by this program (a local stroke, an
  inbound \<open>'draw'\<close> message) holds a path object as the interface describes it: \<open>Path\<close>.
  An operation loaded from the log holds whatever JSON the row stores under \<open>data.path\<close>,
  unchecked: \<open>Unreadable\<close> stands for a stored value that is truthy and on which
  \<open>drawPath\<close> throws a \<open>TypeError\<close> before it strokes anything (an object with no
  \<open>points\<close> array, for instance). A falsy or absent value is \<open>None\<close> in \<open>op_path\<close>.
\<close>

datatype PathValue = Path DrawingPath | Unreadable

text \<open>How a call that may throw ends.\<close>

datatype completion = Returned | Threw

text \<open>
  \<open>op_type\<close> is declared \<open>'draw' | 'erase' | 'clear'\<close>, but \<open>loadOperations\<close> casts the
  stored \<open>operation_type\<close> text into it unchecked, so at run time it is any string.
\<close>

record DrawingOperation =
  op_id :: string
  op_type :: string
  op_path :: "PathValue option"
  op_timestamp :: int
  op_userId :: string

text \<open>
  The arrays holding operations are JavaScript objects that can be shared:
  \<open>connectToRoom\<close> hands the same array to \<open>this.operations\<close> and to the
  \<open>CanvasDrawing\<close>. They live in a store, and the classes hold addresses.
\<close>

type_synonym addr = nat
type_synonym arrays = "addr \<Rightarrow> DrawingOperation list"

definition array_push :: "addr \<Rightarrow> DrawingOperation \<Rightarrow> arrays \<Rightarrow> arrays" where
  "array_push a v h = h(a := h a @ [v])"

text \<open>\<open>Array.prototype.pop\<close>: \<open>undefined\<close> on an empty array, which is left as it is.\<close>

definition array_pop :: "addr \<Rightarrow> arrays \<Rightarrow> DrawingOperation option \<times> arrays" where
  "array_pop a h =
     (case h a of
        [] \<Rightarrow> (None, h)
      | _ # _ \<Rightarrow> (Some (last (h a)), h(a := butlast (h a))))"

text \<open>
  \<open>cv_surface\<close> stands for the bitmap: the strokes issued to the 2-D context since the
  last \<open>clearRect\<close>, in order.
\<close>

record CanvasDrawing =
  cv_isDrawing :: bool
  cv_currentPath :: "DrawingPoint list"
  cv_operations :: addr
  cv_currentColor :: string
  cv_currentWidth :: int
  cv_currentTool :: Tool
  cv_userId :: string
  cv_surface :: "DrawingPath list"

text \<open>Decimal rendering of a number inside a template string.\<close>

fun digits10 :: "nat \<Rightarrow> string" where
  "digits10 n =
     (if n < 10 then [''0123456789'' ! n]
      else digits10 (n div 10) @ [''0123456789'' ! (n mod 10)])"

declare digits10.simps [simp del]

definition showInt :: "int \<Rightarrow> string" where
  "showInt i = (if i < 0 then CHR ''-'' # digits10 (nat (- i)) else digits10 (nat i))"

text \<open>
  \<open>generateId\<close>: \<open>now\<close> is the reading of \<open>Date.now()\<close>, \<open>rnd\<close> the nine characters
  taken from \<open>Math.random().toString(36)\<close>.
\<close>

definition generateId :: "int \<Rightarrow> string \<Rightarrow> string" where
  "generateId now rnd = showInt now @ ''-'' @ rnd"

definition setColor :: "string \<Rightarrow> CanvasDrawing \<Rightarrow> CanvasDrawing" where
  "setColor color cv = cv\<lparr>cv_currentColor := color\<rparr>"

definition setWidth :: "int \<Rightarrow> CanvasDrawing \<Rightarrow> CanvasDrawing" where
  "setWidth width cv = cv\<lparr>cv_currentWidth := width\<rparr>"

definition setTool :: "Tool \<Rightarrow> CanvasDrawing \<Rightarrow> CanvasDrawing" where
  "setTool tool cv = cv\<lparr>cv_currentTool := tool\<rparr>"

definition startDrawing :: "int \<Rightarrow> int \<Rightarrow> CanvasDrawing \<Rightarrow> CanvasDrawing" where
  "startDrawing x y cv =
     cv\<lparr>cv_isDrawing := True, cv_currentPath := [\<lparr>point_x = x, point_y = y\<rparr>]\<rparr>"

definition drawPath :: "DrawingPath \<Rightarrow> CanvasDrawing \<Rightarrow> CanvasDrawing" where
  "drawPath path cv =
     (if length (path_points path) < 2 then cv
      else cv\<lparr>cv_surface := cv_surface cv @ [path]\<rparr>)"

definition toolType :: "Tool \<Rightarrow> string" where
  "toolType tool = (if tool = eraser then ''erase'' else ''draw'')"

text \<open>
  \<open>draw\<close>: \<open>t_id\<close> and \<open>t_ts\<close> are the two readings of \<open>Date.now()\<close> (for the id and for
  the timestamp).
\<close>

definition draw ::
  "int \<Rightarrow> string \<Rightarrow> int \<Rightarrow> int \<Rightarrow> int \<Rightarrow> CanvasDrawing \<Rightarrow> CanvasDrawing \<times> DrawingOperation option"
where
  "draw t_id rnd t_ts x y cv =
     (if \<not> cv_isDrawing cv then (cv, None)
      else
        let cv1 = cv\<lparr>cv_currentPath := cv_currentPath cv @ [\<lparr>point_x = x, point_y = y\<rparr>]\<rparr>;
            path = \<lparr>path_points = cv_currentPath cv1, path_color = cv_currentColor cv1,
                    path_width = cv_currentWidth cv1, path_tool = cv_currentTool cv1\<rparr>;
            cv2 = drawPath path cv1
        in (cv2, Some \<lparr>op_id = generateId t_id rnd, op_type = toolType (cv_currentTool cv2),
                        op_path = Some (Path path), op_timestamp = t_ts,
                        op_userId = cv_userId cv2\<rparr>))"

definition stopDrawing ::
  "int \<Rightarrow> string \<Rightarrow> int \<Rightarrow> arrays \<Rightarrow> CanvasDrawing
     \<Rightarrow> arrays \<times> CanvasDrawing \<times> DrawingOperation option"
where
  "stopDrawing t_id rnd t_ts h cv =
     (if \<not> cv_isDrawing cv \<or> length (cv_currentPath cv) = 0
      then (h, cv\<lparr>cv_isDrawing := False\<rparr>, None)
      else
        let operation =
              \<lparr>op_id = generateId t_id rnd, op_type = toolType (cv_currentTool cv),
               op_path = Some (Path \<lparr>path_points = cv_currentPath cv,
                                     path_color = cv_currentColor cv,
                                     path_width = cv_currentWidth cv,
                                     path_tool = cv_currentTool cv\<rparr>),
               op_timestamp = t_ts, op_userId = cv_userId cv\<rparr>
        in (array_push (cv_operations cv) operation h,
            cv\<lparr>cv_isDrawing := False, cv_currentPath := []\<rparr>,
            Some operation))"

definition drawRemotePath :: "DrawingPath \<Rightarrow> CanvasDrawing \<Rightarrow> CanvasDrawing" where
  "drawRemotePath path cv = drawPath path cv"

definition canvas_clear :: "CanvasDrawing \<Rightarrow> CanvasDrawing" where
  "canvas_clear cv = cv\<lparr>cv_surface := []\<rparr>"

text \<open>
  The \<open>forEach\<close> of \<open>redrawOperations\<close>: an operation without a path is skipped, a path
  object is drawn, and an unreadable value makes \<open>drawPath\<close> throw, which ends the loop
  with the strokes drawn so far.
\<close>

fun redraw_each :: "DrawingOperation list \<Rightarrow> CanvasDrawing \<Rightarrow> CanvasDrawing \<times> completion" where
  "redraw_each [] cv = (cv, Returned)"
| "redraw_each (op # ops) cv =
     (case op_path op of
        None \<Rightarrow> redraw_each ops cv
      | Some (Path p) \<Rightarrow> redraw_each ops (drawPath p cv)
      | Some Unreadable \<Rightarrow> (cv, Threw))"

definition redrawOperations ::
  "DrawingOperation list \<Rightarrow> CanvasDrawing \<Rightarrow> CanvasDrawing \<times> completion"
where
  "redrawOperations ops cv = redraw_each ops (canvas_clear cv)"

definition setOperations ::
  "addr \<Rightarrow> arrays \<Rightarrow> CanvasDrawing \<Rightarrow> CanvasDrawing \<times> completion"
where
  "setOperations a h cv = redrawOperations (h a) (cv\<lparr>cv_operations := a\<rparr>)"

section \<open>realtime.ts: messages and the RealtimeSync class\<close>

text \<open>\<open>msg_type\<close> is the wire string: a payload is cast to \<open>RealtimeMessage\<close> unchecked.\<close>

record RealtimeMessage =
  msg_type :: string
  msg_userId :: string
  msg_username :: "string option"
  msg_color :: "string option"
  msg_path :: "DrawingPath option"
  msg_operationId :: "string option"
  msg_cursorX :: "int option"
  msg_cursorY :: "int option"
  msg_operationIndex :: "int option"

text \<open>The object handed to \<open>supabase.from('drawing_operations').insert\<close>.\<close>

record OperationInsert =
  ins_room_id :: string
  ins_user_id :: string
  ins_operation_type :: string
  ins_operation_index :: int
  ins_path :: "DrawingPath option"
  ins_operationId :: "string option"

text \<open>What a method asks of Supabase, in the order it asks.\<close>

datatype Effect =
    Broadcast RealtimeMessage
  | Insert OperationInsert
  | Track int int


definition logged :: "Effect list \<Rightarrow> OperationInsert list" where
  "logged fx = concat (map (\<lambda>e. case e of Insert i \<Rightarrow> [i] | _ \<Rightarrow> []) fx)"

text \<open>
  \<open>rt_channel\<close>: the channel object exists (it is \<open>null\<close> until \<open>connect\<close>);
  \<open>rt_onMessageCallback\<close>: a callback is registered. The only callback ever registered
  is \<open>handleRealtimeMessage\<close>.
\<close>

record RealtimeSync =
  rt_roomId :: string
  rt_userId :: string
  rt_username :: string
  rt_userColor :: string
  rt_channel :: bool
  rt_onMessageCallback :: bool
  rt_operationIndex :: int

definition new_RealtimeSync :: "string \<Rightarrow> string \<Rightarrow> string \<Rightarrow> string \<Rightarrow> RealtimeSync" where
  "new_RealtimeSync roomId userId username userColor =
     \<lparr>rt_roomId = roomId, rt_userId = userId, rt_username = username,
      rt_userColor = userColor, rt_channel = False, rt_onMessageCallback = False,
      rt_operationIndex = 0\<rparr>"

text \<open>
  What the Supabase calls inside \<open>connect\<close> do: \<open>supabase.channel(...)\<close> throws, or it
  returns the channel and one of the chained \<open>.on(...)\<close>/\<open>.subscribe(...)\<close> calls throws,
  or all of them return.
\<close>

datatype ChannelCalls = ChannelThrows | SubscribeThrows | Subscribed

text \<open>
  \<open>connect\<close> stores the callback, then assigns the channel, then chains the handlers and
  subscribes. It has no \<open>await\<close> outside the subscription callback, so its promise
  rejects exactly when one of these calls throws. The presence handlers and the
  subscription callback (track, registerUser, heartbeat) touch no state modelled here.
\<close>

definition connect :: "ChannelCalls \<Rightarrow> RealtimeSync \<Rightarrow> RealtimeSync \<times> completion" where
  "connect calls rt =
     (let rt1 = rt\<lparr>rt_onMessageCallback := True\<rparr> in
      case calls of
        ChannelThrows \<Rightarrow> (rt1, Threw)
      | SubscribeThrows \<Rightarrow> (rt1\<lparr>rt_channel := True\<rparr>, Threw)
      | Subscribed \<Rightarrow> (rt1\<lparr>rt_channel := True\<rparr>, Returned))"

text \<open>
  The handler of \<open>.on('broadcast', { event: 'drawing' }, ...)\<close>: the message passed to the
  callback, if any.
\<close>

definition broadcastHandler :: "RealtimeSync \<Rightarrow> RealtimeMessage \<Rightarrow> RealtimeMessage option" where
  "broadcastHandler rt payload =
     (if rt_onMessageCallback rt \<and> msg_userId payload \<noteq> rt_userId rt
      then Some payload else None)"

definition saveOperation ::
  "string \<Rightarrow> DrawingPath option \<Rightarrow> string option \<Rightarrow> RealtimeSync \<Rightarrow> Effect"
where
  "saveOperation type path operationId rt =
     Insert \<lparr>ins_room_id = rt_roomId rt, ins_user_id = rt_userId rt,
             ins_operation_type = type, ins_operation_index = rt_operationIndex rt,
             ins_path = path, ins_operationId = operationId\<rparr>"

text \<open>\<open>this.channel?.send(...)\<close>: nothing is sent while the channel is \<open>null\<close>.\<close>

definition channel_send :: "RealtimeMessage \<Rightarrow> RealtimeSync \<Rightarrow> Effect list" where
  "channel_send message rt = (if rt_channel rt then [Broadcast message] else [])"

text \<open>
  \<open>this.operationIndex++\<close> on a JavaScript number. The counter starts at 0 and is only
  ever incremented, so it is an integer between 0 and \<open>2^53\<close> (lemma
  \<open>reachable_counter\<close>); at \<open>2^53\<close> the addition rounds back to \<open>2^53\<close> and the counter
  stays there.
\<close>

definition incremented :: "int \<Rightarrow> int" where
  "incremented n = (if n < 9007199254740992 then n + 1 else n)"

text \<open>
  The four senders are \<open>async\<close>. Each builds its message (post-incrementing the counter)
  and calls \<open>this.channel?.send(...)\<close> at once, and is then suspended at the \<open>await\<close>; no
  caller awaits it. What is left of it, the call of \<open>saveOperation\<close> with its arguments,
  runs when the send has settled, and reads \<open>this.operationIndex\<close> only then: other
  senders may have run in between.
\<close>

datatype Pending = Save string "DrawingPath option" "string option"

fun resume :: "Pending \<Rightarrow> RealtimeSync \<Rightarrow> Effect" where
  "resume (Save type path operationId) rt = saveOperation type path operationId rt"

text \<open>A sender up to its \<open>await\<close>: the new state, what was sent, and what is left to run.\<close>

definition sendDrawing ::
  "DrawingPath \<Rightarrow> RealtimeSync \<Rightarrow> RealtimeSync \<times> Effect list \<times> Pending"
where
  "sendDrawing path rt =
     (let message = \<lparr>msg_type = ''draw'', msg_userId = rt_userId rt,
                      msg_username = Some (rt_username rt), msg_color = Some (rt_userColor rt),
                      msg_path = Some path, msg_operationId = None, msg_cursorX = None,
                      msg_cursorY = None, msg_operationIndex = Some (rt_operationIndex rt)\<rparr>;
          rt1 = rt\<lparr>rt_operationIndex := incremented (rt_operationIndex rt)\<rparr>
      in (rt1, channel_send message rt1, Save ''draw'' (Some path) None))"

text \<open>\<open>sendCursor\<close> has nothing left to run after its \<open>await\<close>.\<close>

definition sendCursor :: "int \<Rightarrow> int \<Rightarrow> RealtimeSync \<Rightarrow> RealtimeSync \<times> Effect list" where
  "sendCursor x y rt = (rt, if rt_channel rt then [Track x y] else [])"

definition sendUndo ::
  "string \<Rightarrow> RealtimeSync \<Rightarrow> RealtimeSync \<times> Effect list \<times> Pending"
where
  "sendUndo operationId rt =
     (let message = \<lparr>msg_type = ''undo'', msg_userId = rt_userId rt,
                      msg_username = None, msg_color = None,
                      msg_path = None, msg_operationId = Some operationId, msg_cursorX = None,
                      msg_cursorY = None, msg_operationIndex = Some (rt_operationIndex rt)\<rparr>;
          rt1 = rt\<lparr>rt_operationIndex := incremented (rt_operationIndex rt)\<rparr>
      in (rt1, channel_send message rt1, Save ''undo'' None (Some operationId)))"

definition sendRedo ::
  "string \<Rightarrow> RealtimeSync \<Rightarrow> RealtimeSync \<times> Effect list \<times> Pending"
where
  "sendRedo operationId rt =
     (let message = \<lparr>msg_type = ''redo'', msg_userId = rt_userId rt,
                      msg_username = None, msg_color = None,
                      msg_path = None, msg_operationId = Some operationId, msg_cursorX = None,
                      msg_cursorY = None, msg_operationIndex = Some (rt_operationIndex rt)\<rparr>;
          rt1 = rt\<lparr>rt_operationIndex := incremented (rt_operationIndex rt)\<rparr>
      in (rt1, channel_send message rt1, Save ''redo'' None (Some operationId)))"

definition sendClear :: "RealtimeSync \<Rightarrow> RealtimeSync \<times> Effect list \<times> Pending" where
  "sendClear rt =
     (let message = \<lparr>msg_type = ''clear'', msg_userId = rt_userId rt,
                      msg_username = None, msg_color = None,
                      msg_path = None, msg_operationId = None, msg_cursorX = None,
                      msg_cursorY = None, msg_operationIndex = Some (rt_operationIndex rt)\<rparr>;
          rt1 = rt\<lparr>rt_operationIndex := incremented (rt_operationIndex rt)\<rparr>
      in (rt1, channel_send message rt1, Save ''clear'' None None))"

text \<open>
  A row of \<open>drawing_operations\<close> as \<open>select('*')\<close> returns it. \<open>row_data\<close> is \<open>None\<close>
  when the \<open>jsonb\<close> value is JSON \<open>null\<close>: reading \<open>op.data.path\<close> then throws.
  \<open>data_path\<close> is the stored JSON, which nothing checks against the interface.
  \<open>row_created_at\<close> is the column already read through \<open>new Date(...).getTime()\<close>.
\<close>

record RowData =
  data_path :: "PathValue option"
  data_operationId :: "string option"

record Row =
  row_id :: string
  row_room_id :: string
  row_user_id :: string
  row_operation_type :: string
  row_operation_index :: int
  row_data :: "RowData option"
  row_created_at :: int

text \<open>The value of an awaited promise: it rejects (the \<open>await\<close> throws) or resolves.\<close>

datatype 'a awaited = Rejected | Resolved 'a

text \<open>The \<open>{ data, error }\<close> pair a Supabase query resolves to.\<close>

record QueryResult =
  qr_data :: "Row list option"
  qr_error :: "string option"

definition rowToOperation :: "Row \<Rightarrow> DrawingOperation option" where
  "rowToOperation op =
     (case row_data op of
        None \<Rightarrow> None
      | Some d \<Rightarrow>
          Some \<lparr>op_id = row_id op, op_type = row_operation_type op, op_path = data_path d,
                op_timestamp = row_created_at op, op_userId = row_user_id op\<rparr>)"

text \<open>
  \<open>loadOperations\<close>, given what the awaited query yields. An \<open>error\<close> is logged and
  answered with the empty array.
\<close>

definition loadOperations :: "QueryResult awaited \<Rightarrow> DrawingOperation list awaited" where
  "loadOperations reply =
     (case reply of
        Rejected \<Rightarrow> Rejected
      | Resolved r \<Rightarrow>
          if qr_error r \<noteq> None then Resolved []
          else
            (case those (map rowToOperation (case qr_data r of None \<Rightarrow> [] | Some rows \<Rightarrow> rows)) of
               None \<Rightarrow> Rejected
             | Some ops \<Rightarrow> Resolved ops))"

text \<open>
  Modelled from the spec: the store that answers
  \<open>from('drawing_operations').select('*').eq('room_id', roomId).order('operation_index',
  { ascending: true })\<close>; the Supabase client (\<open>src/supabase.ts\<close>) and the database are
  not among the sources. Spec section 6: \<open>listOrdered(roomId)\<close> returns the room's
  records in ascending order of the order key. Rows with equal keys keep their table order.
\<close>

definition listOrdered :: "string \<Rightarrow> Row list \<Rightarrow> Row list" where
  "listOrdered roomId table =
     sort_key row_operation_index (filter (\<lambda>r. row_room_id r = roomId) table)"

definition select_reply :: "string \<Rightarrow> Row list \<Rightarrow> QueryResult awaited" where
  "select_reply roomId table =
     Resolved \<lparr>qr_data = Some (listOrdered roomId table), qr_error = None\<rparr>"

section \<open>main.ts: the CollaborativeCanvas class\<close>

text \<open>
  \<open>store\<close> holds the contents of the operation arrays, \<open>nextAddr\<close> the next unused
  address. \<open>isMouseDown\<close> is the variable the mouse handlers close over.
  \<open>suspended\<close> holds the senders that wait at their \<open>await\<close>, oldest first; they belong
  to the event loop rather than to the class. The \<open>UserManager\<close> and the DOM are not part
  of the state.
\<close>

record CollaborativeCanvas =
  store :: arrays
  nextAddr :: addr
  canvas :: CanvasDrawing
  realtime :: RealtimeSync
  userId :: string
  username :: string
  userColor :: string
  roomId :: string
  operations :: addr
  undoneOperations :: addr
  lastCursorSendTime :: int
  cursorThrottle :: int
  isMouseDown :: bool
  suspended :: "Pending list"

text \<open>An array literal or a \<open>map\<close> result: a new array object.\<close>

definition new_array :: "DrawingOperation list \<Rightarrow> CollaborativeCanvas \<Rightarrow> addr \<times> CollaborativeCanvas" where
  "new_array xs s =
     (nextAddr s, s\<lparr>store := (store s)(nextAddr s := xs), nextAddr := Suc (nextAddr s)\<rparr>)"

definition new_CanvasDrawing :: "string \<Rightarrow> addr \<Rightarrow> CanvasDrawing" where
  "new_CanvasDrawing uid a =
     \<lparr>cv_isDrawing = False, cv_currentPath = [], cv_operations = a,
      cv_currentColor = ''#000000'', cv_currentWidth = 2, cv_currentTool = brush,
      cv_userId = uid, cv_surface = []\<rparr>"

text \<open>
  The constructor up to the call of \<open>connectToRoom\<close>. The field initialisers create the
  arrays of \<open>operations\<close> and \<open>undoneOperations\<close> (addresses 0 and 1), the
  \<open>CanvasDrawing\<close> its own (address 2). The four strings come from \<open>users.ts\<close> and the
  page URL.
\<close>

definition new_CollaborativeCanvas ::
  "string \<Rightarrow> string \<Rightarrow> string \<Rightarrow> string \<Rightarrow> CollaborativeCanvas"
where
  "new_CollaborativeCanvas uid uname ucolor rid =
     \<lparr>store = (\<lambda>_. []), nextAddr = 3,
      canvas = new_CanvasDrawing uid 2,
      realtime = new_RealtimeSync rid uid uname ucolor,
      userId = uid, username = uname, userColor = ucolor, roomId = rid,
      operations = 0, undoneOperations = 1,
      lastCursorSendTime = 0, cursorThrottle = 50, isMouseDown = False,
      suspended = []\<rparr>"

text \<open>A handler calls a sender and goes on without awaiting it.\<close>

definition with_realtime ::
  "(RealtimeSync \<Rightarrow> RealtimeSync \<times> Effect list \<times> Pending) \<Rightarrow> CollaborativeCanvas
     \<Rightarrow> CollaborativeCanvas \<times> Effect list"
where
  "with_realtime f s =
     (case f (realtime s) of
        (rt, fx, k) \<Rightarrow> (s\<lparr>realtime := rt, suspended := suspended s @ [k]\<rparr>, fx))"

text \<open>
  The \<open>n\<close>-th suspended sender goes on: \<open>sent\<close> is what its \<open>await this.channel?.send(...)\<close>
  yields. If the send rejected, \<open>saveOperation\<close> is never called.
\<close>

definition resume_sender ::
  "nat \<Rightarrow> unit awaited \<Rightarrow> CollaborativeCanvas \<Rightarrow> CollaborativeCanvas \<times> Effect list"
where
  "resume_sender n sent s =
     (if n < length (suspended s) then
        (let s' = s\<lparr>suspended := take n (suspended s) @ drop (Suc n) (suspended s)\<rparr> in
         case sent of
           Rejected \<Rightarrow> (s', [])
         | Resolved _ \<Rightarrow> (s', [resume (suspended s ! n) (realtime s')]))
      else (s, []))"

definition mousedown :: "int \<Rightarrow> int \<Rightarrow> CollaborativeCanvas \<Rightarrow> CollaborativeCanvas" where
  "mousedown x y s = s\<lparr>isMouseDown := True, canvas := startDrawing x y (canvas s)\<rparr>"

text \<open>
  \<open>mousemove\<close>: \<open>now\<close> is the reading of \<open>Date.now()\<close> for the cursor throttle. The
  operation that \<open>draw\<close> returns always holds a path object (lemma \<open>draw_path\<close>), so the
  last case of the inner \<open>case\<close> is the \<open>else\<close> of \<open>if (operation && operation.path)\<close>.
\<close>

definition mousemove ::
  "int \<Rightarrow> string \<Rightarrow> int \<Rightarrow> int \<Rightarrow> int \<Rightarrow> int \<Rightarrow> CollaborativeCanvas
     \<Rightarrow> CollaborativeCanvas \<times> Effect list"
where
  "mousemove t_id rnd t_ts now x y s =
     (let (s1, fx1) =
            (if isMouseDown s then
               (case draw t_id rnd t_ts x y (canvas s) of
                  (cv, r) \<Rightarrow>
                    (case r of
                       None \<Rightarrow> (s\<lparr>canvas := cv\<rparr>, [])
                     | Some operation \<Rightarrow>
                         (case op_path operation of
                            Some (Path p) \<Rightarrow> with_realtime (sendDrawing p) (s\<lparr>canvas := cv\<rparr>)
                          | _ \<Rightarrow> (s\<lparr>canvas := cv\<rparr>, []))))
             else (s, []));
          (s2, fx2) =
            (if now - lastCursorSendTime s1 > cursorThrottle s1 then
               (case sendCursor x y (realtime s1) of
                  (rt, fx) \<Rightarrow> (s1\<lparr>realtime := rt, lastCursorSendTime := now\<rparr>, fx))
             else (s1, []))
      in (s2, fx1 @ fx2))"

text \<open>
  \<open>mouseup\<close>: as in \<open>mousemove\<close>, the operation that \<open>stopDrawing\<close> returns always holds a
  path object (lemma \<open>stopDrawing_path\<close>).
\<close>

definition mouseup ::
  "int \<Rightarrow> string \<Rightarrow> int \<Rightarrow> CollaborativeCanvas \<Rightarrow> CollaborativeCanvas \<times> Effect list"
where
  "mouseup t_id rnd t_ts s =
     (let (s', fx) =
            (if isMouseDown s then
               (case stopDrawing t_id rnd t_ts (store s) (canvas s) of
                  (h, cv, r) \<Rightarrow>
                    (let s1 = s\<lparr>store := h, canvas := cv\<rparr> in
                     case r of
                       None \<Rightarrow> (s1, [])
                     | Some operation \<Rightarrow>
                         (case op_path operation of
                            Some (Path p) \<Rightarrow>
                              (let s2 = s1\<lparr>store := array_push (operations s1) operation (store s1)\<rparr>;
                                   (a, s3) = new_array [] s2;
                                   s4 = s3\<lparr>undoneOperations := a\<rparr>
                               in with_realtime (sendDrawing p) s4)
                          | _ \<Rightarrow> (s1, []))))
             else (s, []))
      in (s'\<lparr>isMouseDown := False\<rparr>, fx))"

text \<open>The \<open>mouseleave\<close> handler has the body of the \<open>mouseup\<close> handler.\<close>

definition mouseleave ::
  "int \<Rightarrow> string \<Rightarrow> int \<Rightarrow> CollaborativeCanvas \<Rightarrow> CollaborativeCanvas \<times> Effect list"
where
  "mouseleave t_id rnd t_ts s = mouseup t_id rnd t_ts s"

text \<open>
  The four undo and redo methods end with \<open>redrawOperations\<close>. When it throws, the arrays
  have been updated already and the canvas holds the strokes drawn so far; the exception
  leaves the handler, and in \<open>undo\<close> and \<open>redo\<close> the sender is not called.
\<close>

definition handleRemoteUndo :: "CollaborativeCanvas \<Rightarrow> CollaborativeCanvas" where
  "handleRemoteUndo s =
     (if length (store s (operations s)) = 0 then s
      else
        (case array_pop (operations s) (store s) of
           (r, h) \<Rightarrow>
             (let s1 = s\<lparr>store := h\<rparr> in
              case r of
                None \<Rightarrow> s1
              | Some operation \<Rightarrow>
                  (let s2 = s1\<lparr>store := array_push (undoneOperations s1) operation (store s1)\<rparr>
                   in s2\<lparr>canvas :=
                           fst (redrawOperations (store s2 (operations s2)) (canvas s2))\<rparr>))))"

definition handleRemoteRedo :: "CollaborativeCanvas \<Rightarrow> CollaborativeCanvas" where
  "handleRemoteRedo s =
     (if length (store s (undoneOperations s)) = 0 then s
      else
        (case array_pop (undoneOperations s) (store s) of
           (r, h) \<Rightarrow>
             (let s1 = s\<lparr>store := h\<rparr> in
              case r of
                None \<Rightarrow> s1
              | Some operation \<Rightarrow>
                  (let s2 = s1\<lparr>store := array_push (operations s1) operation (store s1)\<rparr>
                   in s2\<lparr>canvas :=
                           fst (redrawOperations (store s2 (operations s2)) (canvas s2))\<rparr>))))"

definition undo :: "CollaborativeCanvas \<Rightarrow> CollaborativeCanvas \<times> Effect list" where
  "undo s =
     (if length (store s (operations s)) = 0 then (s, [])
      else
        (case array_pop (operations s) (store s) of
           (r, h) \<Rightarrow>
             (let s1 = s\<lparr>store := h\<rparr> in
              case r of
                None \<Rightarrow> (s1, [])
              | Some operation \<Rightarrow>
                  (let s2 = s1\<lparr>store := array_push (undoneOperations s1) operation (store s1)\<rparr>;
                       (cv, drawn) = redrawOperations (store s2 (operations s2)) (canvas s2);
                       s3 = s2\<lparr>canvas := cv\<rparr>
                   in case drawn of
                        Threw \<Rightarrow> (s3, [])
                      | Returned \<Rightarrow> with_realtime (sendUndo (op_id operation)) s3))))"

definition redo :: "CollaborativeCanvas \<Rightarrow> CollaborativeCanvas \<times> Effect list" where
  "redo s =
     (if length (store s (undoneOperations s)) = 0 then (s, [])
      else
        (case array_pop (undoneOperations s) (store s) of
           (r, h) \<Rightarrow>
             (let s1 = s\<lparr>store := h\<rparr> in
              case r of
                None \<Rightarrow> (s1, [])
              | Some operation \<Rightarrow>
                  (let s2 = s1\<lparr>store := array_push (operations s1) operation (store s1)\<rparr>;
                       (cv, drawn) = redrawOperations (store s2 (operations s2)) (canvas s2);
                       s3 = s2\<lparr>canvas := cv\<rparr>
                   in case drawn of
                        Threw \<Rightarrow> (s3, [])
                      | Returned \<Rightarrow> with_realtime (sendRedo (op_id operation)) s3))))"

text \<open>\<open>this.operations = []; this.undoneOperations = [];\<close> with two new arrays.\<close>

definition reset_arrays :: "CollaborativeCanvas \<Rightarrow> CollaborativeCanvas" where
  "reset_arrays s =
     (let (a, s1) = new_array [] s;
          s2 = s1\<lparr>operations := a\<rparr>;
          (b, s3) = new_array [] s2
      in s3\<lparr>undoneOperations := b\<rparr>)"

definition clear :: "CollaborativeCanvas \<Rightarrow> CollaborativeCanvas \<times> Effect list" where
  "clear s =
     (let s1 = s\<lparr>canvas := canvas_clear (canvas s)\<rparr>;
          s2 = reset_arrays s1
      in with_realtime sendClear s2)"

text \<open>
  \<open>handleRealtimeMessage\<close>: \<open>t_id\<close> and \<open>t_ts\<close> are the two readings of \<open>Date.now()\<close> in
  the \<open>'draw'\<close> case. The \<open>'cursor'\<close>, \<open>'user_joined'\<close> and \<open>'user_left'\<close> cases only
  talk to the \<open>UserManager\<close>; the \<open>switch\<close> has no default.
\<close>

definition handleRealtimeMessage ::
  "int \<Rightarrow> int \<Rightarrow> CollaborativeCanvas \<Rightarrow> RealtimeMessage \<Rightarrow> CollaborativeCanvas"
where
  "handleRealtimeMessage t_id t_ts s message =
     (if msg_type message = ''draw'' then
        (case msg_path message of
           None \<Rightarrow> s
         | Some p \<Rightarrow>
             (let s1 = s\<lparr>canvas := drawRemotePath p (canvas s)\<rparr>;
                  operation =
                    \<lparr>op_id = msg_userId message @ ''-'' @ showInt t_id,
                     op_type = (if path_tool p = eraser then ''erase'' else ''draw''),
                     op_path = Some (Path p), op_timestamp = t_ts,
                     op_userId = msg_userId message\<rparr>
              in s1\<lparr>store := array_push (operations s1) operation (store s1)\<rparr>))
      else if msg_type message = ''cursor'' then s
      else if msg_type message = ''undo'' then handleRemoteUndo s
      else if msg_type message = ''redo'' then handleRemoteRedo s
      else if msg_type message = ''clear'' then
        reset_arrays (s\<lparr>canvas := canvas_clear (canvas s)\<rparr>)
      else if msg_type message = ''user_joined'' then s
      else if msg_type message = ''user_left'' then s
      else s)"

text \<open>An inbound broadcast: the channel's handler, then the registered callback.\<close>

definition onBroadcast ::
  "int \<Rightarrow> int \<Rightarrow> RealtimeMessage \<Rightarrow> CollaborativeCanvas \<Rightarrow> CollaborativeCanvas"
where
  "onBroadcast t_id t_ts payload s =
     (case broadcastHandler (realtime s) payload of
        None \<Rightarrow> s
      | Some message \<Rightarrow> handleRealtimeMessage t_id t_ts s message)"

text \<open>
  \<open>connectToRoom\<close>: \<open>room\<close> is what awaiting \<open>getOrCreateRoom\<close> yields, \<open>reply\<close> what the
  query inside \<open>loadOperations\<close> yields, \<open>calls\<close> what the Supabase calls inside \<open>connect\<close>
  do. The string returned is the text written to the \<open>connectionStatus\<close> element.
  Whatever throws inside the \<open>try\<close> block lands in the \<open>catch\<close>, with the assignments
  made so far in place: when \<open>setOperations\<close> throws on an unreadable stored path,
  \<open>this.operations\<close> has been replaced already and \<open>connect\<close> is not called.
\<close>

definition connectToRoom ::
  "unit awaited \<Rightarrow> QueryResult awaited \<Rightarrow> ChannelCalls \<Rightarrow> CollaborativeCanvas
     \<Rightarrow> CollaborativeCanvas \<times> string"
where
  "connectToRoom room reply calls s =
     (case room of
        Rejected \<Rightarrow> (s, ''Connection Error'')
      | Resolved _ \<Rightarrow>
          (case loadOperations reply of
             Rejected \<Rightarrow> (s, ''Connection Error'')
           | Resolved savedOperations \<Rightarrow>
               (let (a, s1) = new_array savedOperations s;
                    s2 = s1\<lparr>operations := a\<rparr>;
                    (cv, drawn) = setOperations a (store s2) (canvas s2);
                    s3 = s2\<lparr>canvas := cv\<rparr>
                in case drawn of
                     Threw \<Rightarrow> (s3, ''Connection Error'')
                   | Returned \<Rightarrow>
                       (case connect calls (realtime s3) of
                          (rt, subscribed) \<Rightarrow>
                            (case subscribed of
                               Threw \<Rightarrow> (s3\<lparr>realtime := rt\<rparr>, ''Connection Error'')
                             | Returned \<Rightarrow> (s3\<lparr>realtime := rt\<rparr>, ''Connected''))))))"

section \<open>The two sequences of a replica\<close>

definition active :: "CollaborativeCanvas \<Rightarrow> DrawingOperation list" where
  "active s = store s (operations s)"

definition undone :: "CollaborativeCanvas \<Rightarrow> DrawingOperation list" where
  "undone s = store s (undoneOperations s)"

text \<open>
  The arrays of \<open>operations\<close> and \<open>undoneOperations\<close> are different objects, and every
  address in use is below \<open>nextAddr\<close>.
\<close>

definition arrays_apart :: "CollaborativeCanvas \<Rightarrow> bool" where
  "arrays_apart s \<longleftrightarrow>
     operations s \<noteq> undoneOperations s \<and>
     cv_operations (canvas s) \<noteq> undoneOperations s \<and>
     operations s < nextAddr s \<and> undoneOperations s < nextAddr s \<and>
     cv_operations (canvas s) < nextAddr s"

text \<open>
  The states a replica can be in: the constructor, then any run of handlers. The clock
  readings, random strings, mouse positions, inbound payloads, the outcomes of the
  awaited calls and the order in which suspended senders go on are arbitrary.
\<close>

inductive reachable :: "CollaborativeCanvas \<Rightarrow> bool" where
  constructed: "reachable (new_CollaborativeCanvas uid uname ucolor rid)"
| connected: "reachable s \<Longrightarrow> reachable (fst (connectToRoom room reply calls s))"
| sender_resumed: "reachable s \<Longrightarrow> reachable (fst (resume_sender n sent s))"
| tool_chosen: "reachable s \<Longrightarrow> reachable (s\<lparr>canvas := setTool tool (canvas s)\<rparr>)"
| color_chosen: "reachable s \<Longrightarrow> reachable (s\<lparr>canvas := setColor color (canvas s)\<rparr>)"
| width_chosen: "reachable s \<Longrightarrow> reachable (s\<lparr>canvas := setWidth width (canvas s)\<rparr>)"
| mouse_down: "reachable s \<Longrightarrow> reachable (mousedown x y s)"
| mouse_move: "reachable s \<Longrightarrow> reachable (fst (mousemove t_id rnd t_ts now x y s))"
| mouse_up: "reachable s \<Longrightarrow> reachable (fst (mouseup t_id rnd t_ts s))"
| mouse_leave: "reachable s \<Longrightarrow> reachable (fst (mouseleave t_id rnd t_ts s))"
| undo_clicked: "reachable s \<Longrightarrow> reachable (fst (undo s))"
| redo_clicked: "reachable s \<Longrightarrow> reachable (fst (redo s))"
| clear_clicked: "reachable s \<Longrightarrow> reachable (fst (clear s))"
| broadcast_received: "reachable s \<Longrightarrow> reachable (onBroadcast t_id t_ts payload s)"

section \<open>Joining against a log, and the fold rule of the specification\<close>

text \<open>
  \<open>join_against table s\<close>: \<open>connectToRoom\<close> run by replica \<open>s\<close> when the room exists or is
  created without error, the table \<open>drawing_operations\<close> holds \<open>table\<close> and the channel
  calls return.
\<close>

definition join_against :: "Row list \<Rightarrow> CollaborativeCanvas \<Rightarrow> CollaborativeCanvas \<times> string" where
  "join_against table s =
     connectToRoom (Resolved ()) (select_reply (rt_roomId (realtime s)) table) Subscribed s"

text \<open>
  The fold rule in the words of the specification (section 4.3), kept apart from the
  code so that the two can be compared: \<open>draw\<close>/\<open>erase\<close> append to \<open>active\<close> and clear
  \<open>undone\<close>; \<open>clear\<close> empties both; \<open>undo\<close> moves the tail of \<open>active\<close> onto \<open>undone\<close>;
  \<open>redo\<close> moves the tail of \<open>undone\<close> back; anything else is dropped.
\<close>

definition spec_fold_rule ::
  "DrawingOperation list \<times> DrawingOperation list \<Rightarrow> DrawingOperation
     \<Rightarrow> DrawingOperation list \<times> DrawingOperation list"
where
  "spec_fold_rule st r =
     (case st of
        (act, und) \<Rightarrow>
          if op_type r = ''draw'' \<or> op_type r = ''erase'' then (act @ [r], [])
          else if op_type r = ''clear'' then ([], [])
          else if op_type r = ''undo'' then
            (if act = [] then (act, und) else (butlast act, und @ [last act]))
          else if op_type r = ''redo'' then
            (if und = [] then (act, und) else (act @ [last und], butlast und))
          else (act, und))"

definition spec_fold :: "DrawingOperation list \<Rightarrow> DrawingOperation list \<times> DrawingOperation list" where
  "spec_fold records = foldl spec_fold_rule ([], []) records"

text \<open>The \<open>active\<close> sequence the specification expects of a join against \<open>table\<close>.\<close>

definition spec_join_active :: "string \<Rightarrow> Row list \<Rightarrow> DrawingOperation list option" where
  "spec_join_active rid table =
     map_option (\<lambda>records. fst (spec_fold records))
       (those (map rowToOperation (listOrdered rid table)))"

section \<open>Example replicas, messages and logs\<close>

definition pathP :: DrawingPath where
  "pathP =
     \<lparr>path_points = [\<lparr>point_x = 100, point_y = 150\<rparr>, \<lparr>point_x = 105, point_y = 152\<rparr>],
      path_color = ''#000000'', path_width = 2, path_tool = brush\<rparr>"

definition replicaA :: CollaborativeCanvas where
  "replicaA = new_CollaborativeCanvas ''user-a'' ''QuickFox'' ''#ef4444'' ''room-1''"

text \<open>Replica A after joining the still empty room.\<close>

definition joinedA :: CollaborativeCanvas where
  "joinedA = fst (join_against [] replicaA)"

definition drawMsg :: RealtimeMessage where
  "drawMsg =
     \<lparr>msg_type = ''draw'', msg_userId = ''user-b'', msg_username = Some ''CleverEagle'',
      msg_color = Some ''#3b82f6'', msg_path = Some pathP, msg_operationId = None,
      msg_cursorX = None, msg_cursorY = None, msg_operationIndex = Some 0\<rparr>"

definition undoMsg :: RealtimeMessage where
  "undoMsg =
     \<lparr>msg_type = ''undo'', msg_userId = ''user-b'', msg_username = None,
      msg_color = None, msg_path = None, msg_operationId = Some ''no-such-operation'',
      msg_cursorX = None, msg_cursorY = None, msg_operationIndex = Some 1\<rparr>"

definition redoMsg :: RealtimeMessage where
  "redoMsg =
     \<lparr>msg_type = ''redo'', msg_userId = ''user-b'', msg_username = None,
      msg_color = None, msg_path = None, msg_operationId = Some ''no-such-operation'',
      msg_cursorX = None, msg_cursorY = None, msg_operationIndex = Some 2\<rparr>"

definition clearMsg :: RealtimeMessage where
  "clearMsg =
     \<lparr>msg_type = ''clear'', msg_userId = ''user-b'', msg_username = None,
      msg_color = None, msg_path = None, msg_operationId = None,
      msg_cursorX = None, msg_cursorY = None, msg_operationIndex = Some 3\<rparr>"

text \<open>A broadcast that carries replica A's own user id.\<close>

definition echoMsg :: RealtimeMessage where
  "echoMsg = drawMsg\<lparr>msg_userId := ''user-a''\<rparr>"

text \<open>Replica A after user B's stroke arrived.\<close>

definition oneStroke :: CollaborativeCanvas where
  "oneStroke = handleRealtimeMessage 1000 1000 joinedA drawMsg"

text \<open>... and after the local user then clicked undo.\<close>

definition oneUndone :: CollaborativeCanvas where
  "oneUndone = fst (undo oneStroke)"

text \<open>A log of room-1: user B's stroke, then user B's undo of it.\<close>

definition rowDraw :: Row where
  "rowDraw =
     \<lparr>row_id = ''0b9d6c1e-5a2f-4c3b-8e7d-000000000001'', row_room_id = ''room-1'', row_user_id = ''user-b'',
      row_operation_type = ''draw'', row_operation_index = 1,
      row_data = Some \<lparr>data_path = Some (Path pathP), data_operationId = None\<rparr>,
      row_created_at = 1000\<rparr>"

definition rowUndo :: Row where
  "rowUndo =
     \<lparr>row_id = ''0b9d6c1e-5a2f-4c3b-8e7d-000000000002'', row_room_id = ''room-1'', row_user_id = ''user-b'',
      row_operation_type = ''undo'', row_operation_index = 2,
      row_data = Some \<lparr>data_path = None, data_operationId = Some ''1000-k3j9x2m1q''\<rparr>,
      row_created_at = 2000\<rparr>"

definition logDrawUndo :: "Row list" where
  "logDrawUndo = [rowUndo, rowDraw]"

text \<open>A row whose stored path has no \<open>points\<close> array.\<close>

definition rowUnreadable :: Row where
  "rowUnreadable =
     \<lparr>row_id = ''0b9d6c1e-5a2f-4c3b-8e7d-000000000003'', row_room_id = ''room-1'',
      row_user_id = ''user-b'', row_operation_type = ''draw'', row_operation_index = 1,
      row_data = Some \<lparr>data_path = Some Unreadable, data_operationId = None\<rparr>,
      row_created_at = 1000\<rparr>"

text \<open>Replica A after two clicks on clear, both senders still suspended.\<close>

definition twoClears :: CollaborativeCanvas where
  "twoClears = fst (clear (fst (clear joinedA)))"

text \<open>The reply of a query that failed.\<close>

definition failedQuery :: "QueryResult awaited" where
  "failedQuery = Resolved \<lparr>qr_data = None, qr_error = Some ''permission denied''\<rparr>"

section \<open>The arrays stay apart\<close>

lemma array_pop_nonempty:
  "h a \<noteq> [] \<Longrightarrow> array_pop a h = (Some (last (h a)), h(a := butlast (h a)))"
  by (cases "h a") (simp_all add: array_pop_def)

lemma cv_operations_drawPath [simp]: "cv_operations (drawPath p cv) = cv_operations cv"
  by (simp add: drawPath_def)

lemma cv_operations_redraw_each [simp]:
  "cv_operations (fst (redraw_each ops cv)) = cv_operations cv"
  by (induction ops cv rule: redraw_each.induct)
     (simp_all split: option.splits PathValue.splits)

lemma cv_operations_redrawOperations [simp]:
  "cv_operations (fst (redrawOperations ops cv)) = cv_operations cv"
  by (simp add: redrawOperations_def canvas_clear_def)

lemma cv_operations_redrawn:
  "redrawOperations ops cv = (cv', drawn) \<Longrightarrow> cv_operations cv' = cv_operations cv"
  using cv_operations_redrawOperations [of ops cv] by simp

lemma draw_path:
  "draw t_id rnd t_ts x y cv = (cv', Some operation) \<Longrightarrow> \<exists>p. op_path operation = Some (Path p)"
  by (auto simp: draw_def Let_def split: if_splits)

lemma stopDrawing_path:
  "stopDrawing t_id rnd t_ts h cv = (h', cv', Some operation) \<Longrightarrow>
     \<exists>p. op_path operation = Some (Path p)"
  by (auto simp: stopDrawing_def Let_def split: if_splits)

lemma new_apart: "arrays_apart (new_CollaborativeCanvas uid uname ucolor rid)"
  by (simp add: new_CollaborativeCanvas_def new_CanvasDrawing_def arrays_apart_def)

lemma undo_apart: "arrays_apart s \<Longrightarrow> arrays_apart (fst (undo s))"
  by (cases "store s (operations s) = []")
     (auto simp: undo_def arrays_apart_def array_pop_nonempty array_push_def
        with_realtime_def sendUndo_def Let_def dest!: cv_operations_redrawn
        split: prod.splits completion.splits)

lemma redo_apart: "arrays_apart s \<Longrightarrow> arrays_apart (fst (redo s))"
  by (cases "store s (undoneOperations s) = []")
     (auto simp: redo_def arrays_apart_def array_pop_nonempty array_push_def
        with_realtime_def sendRedo_def Let_def dest!: cv_operations_redrawn
        split: prod.splits completion.splits)

lemma handleRemoteUndo_apart: "arrays_apart s \<Longrightarrow> arrays_apart (handleRemoteUndo s)"
  by (cases "store s (operations s) = []")
     (simp_all add: handleRemoteUndo_def arrays_apart_def array_pop_nonempty
        array_push_def Let_def)

lemma handleRemoteRedo_apart: "arrays_apart s \<Longrightarrow> arrays_apart (handleRemoteRedo s)"
  by (cases "store s (undoneOperations s) = []")
     (simp_all add: handleRemoteRedo_def arrays_apart_def array_pop_nonempty
        array_push_def Let_def)

lemma reset_arrays_apart: "arrays_apart s \<Longrightarrow> arrays_apart (reset_arrays s)"
  by (simp add: reset_arrays_def new_array_def arrays_apart_def Let_def)

lemma clear_apart: "arrays_apart s \<Longrightarrow> arrays_apart (fst (clear s))"
  using reset_arrays_apart [of "s\<lparr>canvas := canvas_clear (canvas s)\<rparr>"]
  by (simp add: clear_def with_realtime_def sendClear_def Let_def arrays_apart_def
        canvas_clear_def split: prod.splits)

lemma handleRealtimeMessage_apart:
  "arrays_apart s \<Longrightarrow> arrays_apart (handleRealtimeMessage t_id t_ts s m)"
  using reset_arrays_apart [of "s\<lparr>canvas := canvas_clear (canvas s)\<rparr>"]
    handleRemoteUndo_apart [of s] handleRemoteRedo_apart [of s]
  by (simp add: handleRealtimeMessage_def Let_def arrays_apart_def drawRemotePath_def
        canvas_clear_def array_push_def split: option.splits)

lemma onBroadcast_apart:
  "arrays_apart s \<Longrightarrow> arrays_apart (onBroadcast t_id t_ts payload s)"
  by (simp add: onBroadcast_def handleRealtimeMessage_apart split: option.splits)

lemma mousedown_apart: "arrays_apart s \<Longrightarrow> arrays_apart (mousedown x y s)"
  by (simp add: mousedown_def startDrawing_def arrays_apart_def)

lemma mouseup_apart: "arrays_apart s \<Longrightarrow> arrays_apart (fst (mouseup t_id rnd t_ts s))"
  by (simp add: mouseup_def stopDrawing_def new_array_def with_realtime_def sendDrawing_def
        arrays_apart_def Let_def split: prod.splits option.splits)

lemma connectToRoom_apart:
  "arrays_apart s \<Longrightarrow> arrays_apart (fst (connectToRoom room reply calls s))"
proof -
  have cv: "cv_operations cv = a" if "setOperations a h c = (cv, drawn)" for a h c cv drawn
    using that cv_operations_redrawOperations [of "h a" "c\<lparr>cv_operations := a\<rparr>"]
    by (simp add: setOperations_def)
  assume "arrays_apart s"
  then show ?thesis
    by (auto simp: connectToRoom_def new_array_def arrays_apart_def Let_def dest!: cv
          split: awaited.splits prod.splits completion.splits)
qed

lemma resume_sender_apart:
  "arrays_apart s \<Longrightarrow> arrays_apart (fst (resume_sender n sent s))"
  by (simp add: resume_sender_def arrays_apart_def Let_def split: awaited.splits)

lemma mousemove_apart:
  "arrays_apart s \<Longrightarrow> arrays_apart (fst (mousemove t_id rnd t_ts now x y s))"
  by (simp add: mousemove_def draw_def with_realtime_def sendDrawing_def sendCursor_def
        arrays_apart_def Let_def split: prod.splits option.splits)

lemma reachable_apart: "reachable s \<Longrightarrow> arrays_apart s"
proof (induction rule: reachable.induct)
  case (constructed uid uname ucolor rid)
  show ?case by (rule new_apart)
next
  case (connected s room reply calls)
  then show ?case by (simp add: connectToRoom_apart)
next
  case (sender_resumed s n sent)
  then show ?case by (simp add: resume_sender_apart)
next
  case (tool_chosen s tool)
  then show ?case by (simp add: arrays_apart_def setTool_def)
next
  case (color_chosen s color)
  then show ?case by (simp add: arrays_apart_def setColor_def)
next
  case (width_chosen s width)
  then show ?case by (simp add: arrays_apart_def setWidth_def)
next
  case (mouse_down s x y)
  then show ?case by (simp add: mousedown_apart)
next
  case (mouse_move s t_id rnd t_ts now x y)
  then show ?case by (simp add: mousemove_apart)
next
  case (mouse_up s t_id rnd t_ts)
  then show ?case by (simp add: mouseup_apart)
next
  case (mouse_leave s t_id rnd t_ts)
  then show ?case by (simp add: mouseleave_def mouseup_apart)
next
  case (undo_clicked s)
  then show ?case by (simp add: undo_apart)
next
  case (redo_clicked s)
  then show ?case by (simp add: redo_apart)
next
  case (clear_clicked s)
  then show ?case by (simp add: clear_apart)
next
  case (broadcast_received s t_id t_ts payload)
  then show ?case by (simp add: onBroadcast_apart)
qed

lemma joinedA_apart: "arrays_apart joinedA"
  by (simp add: joinedA_def join_against_def replicaA_def connectToRoom_apart new_apart)

lemma oneStroke_apart: "arrays_apart oneStroke"
  by (simp add: oneStroke_def handleRealtimeMessage_apart joinedA_apart)

lemma oneUndone_apart: "arrays_apart oneUndone"
  by (simp add: oneUndone_def undo_apart oneStroke_apart)

section \<open>What undo and redo do to the two sequences\<close>

lemma undo_sequences:
  "arrays_apart s \<Longrightarrow>
     active (fst (undo s)) = butlast (active s) \<and>
     undone (fst (undo s)) = (if active s = [] then undone s else undone s @ [last (active s)])"
  by (cases "store s (operations s) = []")
     (simp_all add: undo_def active_def undone_def arrays_apart_def array_pop_nonempty
        array_push_def with_realtime_def sendUndo_def Let_def split: prod.splits completion.splits)

lemma redo_sequences:
  "arrays_apart s \<Longrightarrow>
     undone (fst (redo s)) = butlast (undone s) \<and>
     active (fst (redo s)) = (if undone s = [] then active s else active s @ [last (undone s)])"
  by (cases "store s (undoneOperations s) = []")
     (simp_all add: redo_def active_def undone_def arrays_apart_def array_pop_nonempty
        array_push_def with_realtime_def sendRedo_def Let_def split: prod.splits completion.splits)

lemma handleRemoteUndo_sequences:
  "arrays_apart s \<Longrightarrow>
     active (handleRemoteUndo s) = butlast (active s) \<and>
     undone (handleRemoteUndo s) =
       (if active s = [] then undone s else undone s @ [last (active s)])"
  by (cases "store s (operations s) = []")
     (simp_all add: handleRemoteUndo_def active_def undone_def arrays_apart_def
        array_pop_nonempty array_push_def Let_def)

lemma handleRemoteRedo_sequences:
  "arrays_apart s \<Longrightarrow>
     undone (handleRemoteRedo s) = butlast (undone s) \<and>
     active (handleRemoteRedo s) =
       (if undone s = [] then active s else active s @ [last (undone s)])"
  by (cases "store s (undoneOperations s) = []")
     (simp_all add: handleRemoteRedo_def active_def undone_def arrays_apart_def
        array_pop_nonempty array_push_def Let_def)

lemma reset_arrays_sequences:
  "active (reset_arrays s) = [] \<and> undone (reset_arrays s) = []"
  by (simp add: reset_arrays_def new_array_def active_def undone_def Let_def)

lemma redraw_each_returns:
  "snd (redraw_each ops cv) = Returned \<longleftrightarrow> Some Unreadable \<notin> set (map op_path ops)"
  by (induction ops cv rule: redraw_each.induct)
     (auto split: option.splits PathValue.splits)

lemma connectToRoom_active:
  "active (fst (connectToRoom (Resolved ()) reply calls s)) =
     (case loadOperations reply of Rejected \<Rightarrow> active s | Resolved saved \<Rightarrow> saved)"
  by (simp add: connectToRoom_def new_array_def active_def Let_def
        split: awaited.splits prod.splits completion.splits)

lemma connectToRoom_undone:
  "undoneOperations s < nextAddr s \<Longrightarrow>
     undone (fst (connectToRoom room reply calls s)) = undone s"
  by (simp add: connectToRoom_def new_array_def undone_def Let_def
        split: awaited.splits prod.splits completion.splits)

lemma connectToRoom_status:
  "loadOperations reply = Resolved saved \<Longrightarrow>
     snd (connectToRoom (Resolved ()) reply calls s) = ''Connected''
       \<longleftrightarrow> Some Unreadable \<notin> set (map op_path saved) \<and> calls = Subscribed"
  using redraw_each_returns [of saved "canvas_clear (canvas s\<lparr>cv_operations := nextAddr s\<rparr>)"]
  by (cases calls)
     (auto simp: connectToRoom_def new_array_def setOperations_def redrawOperations_def
        connect_def Let_def split: prod.splits completion.splits)

lemma mset_butlast_last: "xs \<noteq> [] \<Longrightarrow> add_mset (last xs) (mset (butlast xs)) = mset xs"
  by (induction xs) auto

lemma handle_draw_sequences:
  "arrays_apart s \<Longrightarrow> msg_type m = ''draw'' \<Longrightarrow> msg_path m = Some p \<Longrightarrow>
     active (handleRealtimeMessage t_id t_ts s m) =
       active s @ [\<lparr>op_id = msg_userId m @ ''-'' @ showInt t_id,
                     op_type = (if path_tool p = eraser then ''erase'' else ''draw''),
                     op_path = Some (Path p), op_timestamp = t_ts,
                     op_userId = msg_userId m\<rparr>] \<and>
     undone (handleRealtimeMessage t_id t_ts s m) = undone s"
  by (simp add: handleRealtimeMessage_def active_def undone_def arrays_apart_def
        array_push_def Let_def)

section \<open>The example replicas, evaluated\<close>

lemma active_joinedA: "active joinedA = []"
  by (simp add: joinedA_def join_against_def connectToRoom_active loadOperations_def
        select_reply_def listOrdered_def)

lemma undone_joinedA: "undone joinedA = []"
proof -
  have "undoneOperations replicaA < nextAddr replicaA" and "undone replicaA = []"
    by (simp_all add: replicaA_def new_CollaborativeCanvas_def undone_def)
  then show ?thesis
    by (simp add: joinedA_def join_against_def connectToRoom_undone)
qed

lemma active_oneStroke:
  "active oneStroke =
     [\<lparr>op_id = ''user-b-1000'', op_type = ''draw'', op_path = Some (Path pathP),
       op_timestamp = 1000, op_userId = ''user-b''\<rparr>]"
  using handle_draw_sequences [OF joinedA_apart, of drawMsg pathP 1000 1000]
  by (simp add: oneStroke_def drawMsg_def active_joinedA showInt_def digits10.simps pathP_def)

lemma undone_oneStroke: "undone oneStroke = []"
  using handle_draw_sequences [OF joinedA_apart, of drawMsg pathP 1000 1000]
  by (simp add: oneStroke_def drawMsg_def undone_joinedA)

section \<open>Undo and redo\<close>

text \<open>
  C4. For a replica whose \<open>active\<close> sequence is not empty, a local \<open>undo\<close> followed at once
  by a local \<open>redo\<close> gives back the \<open>active\<close> sequence it had before the undo, element for
  element, and the \<open>undone\<close> sequence as well.
\<close>

theorem undo_then_redo_restores:
  "arrays_apart s \<Longrightarrow> active s \<noteq> [] \<Longrightarrow>
     active (fst (redo (fst (undo s)))) = active s \<and>
     undone (fst (redo (fst (undo s)))) = undone s"
  using undo_sequences [of s] redo_sequences [of "fst (undo s)"] undo_apart [of s]
  by simp

theorem undo_then_redo_restores_witness:
  "arrays_apart oneStroke \<and> active oneStroke \<noteq> [] \<and>
   active (fst (redo (fst (undo oneStroke)))) = active oneStroke \<and>
   undone (fst (redo (fst (undo oneStroke)))) = undone oneStroke"
proof -
  have nonempty: "active oneStroke \<noteq> []"
    by (simp add: active_oneStroke)
  from undo_then_redo_restores [OF oneStroke_apart nonempty] oneStroke_apart nonempty
  show ?thesis by simp
qed

text \<open>
  C10. Every undo and redo transition, local (\<open>undo\<close>, \<open>redo\<close>) or remote
  (\<open>handleRemoteUndo\<close>, \<open>handleRemoteRedo\<close>), keeps the multiset of operations held in
  \<open>active\<close> and \<open>undone\<close> together: an operation is only moved from one sequence to the
  other, never duplicated, dropped or changed.
\<close>

theorem undo_redo_keep_operations:
  "arrays_apart s \<Longrightarrow>
     mset (active (fst (undo s))) + mset (undone (fst (undo s)))
       = mset (active s) + mset (undone s) \<and>
     mset (active (fst (redo s))) + mset (undone (fst (redo s)))
       = mset (active s) + mset (undone s) \<and>
     mset (active (handleRemoteUndo s)) + mset (undone (handleRemoteUndo s))
       = mset (active s) + mset (undone s) \<and>
     mset (active (handleRemoteRedo s)) + mset (undone (handleRemoteRedo s))
       = mset (active s) + mset (undone s)"
  using undo_sequences [of s] redo_sequences [of s]
    handleRemoteUndo_sequences [of s] handleRemoteRedo_sequences [of s]
    mset_butlast_last [of "active s"] mset_butlast_last [of "undone s"]
  by (cases "active s = []"; cases "undone s = []") simp_all

theorem undo_redo_keep_operations_witness:
  "arrays_apart oneStroke \<and>
   mset (active (fst (undo oneStroke))) + mset (undone (fst (undo oneStroke)))
     = mset (active oneStroke) \<and>
   mset (active (handleRemoteRedo oneUndone)) + mset (undone (handleRemoteRedo oneUndone))
     = mset (active oneUndone) + mset (undone oneUndone)"
  using undo_redo_keep_operations [OF oneStroke_apart]
    undo_redo_keep_operations [OF oneUndone_apart] oneStroke_apart
  by (simp add: undone_oneStroke)

section \<open>Clear, and remote undo and redo\<close>

lemma redo_nothing: "undone s = [] \<Longrightarrow> redo s = (s, []) \<and> handleRemoteRedo s = s"
  by (simp add: redo_def handleRemoteRedo_def undone_def)

lemma clear_sequences: "active (fst (clear s)) = [] \<and> undone (fst (clear s)) = []"
  using reset_arrays_sequences [of "s\<lparr>canvas := canvas_clear (canvas s)\<rparr>"]
  by (simp add: clear_def with_realtime_def sendClear_def Let_def active_def undone_def
        split: prod.splits)

lemma handle_clear:
  "handleRealtimeMessage t_id t_ts s (m\<lparr>msg_type := ''clear''\<rparr>)
     = reset_arrays (s\<lparr>canvas := canvas_clear (canvas s)\<rparr>)"
  by (simp add: handleRealtimeMessage_def)

text \<open>
  C5. Applying a clear, whether the local \<open>clear\<close> or an inbound \<open>'clear'\<close> message,
  empties both the \<open>active\<close> and the \<open>undone\<close> sequence, whatever the state was; a redo
  attempted right afterwards, local or remote, changes nothing and sends nothing.
\<close>

theorem clear_empties_both:
  "active (fst (clear s)) = [] \<and> undone (fst (clear s)) = [] \<and>
   redo (fst (clear s)) = (fst (clear s), []) \<and>
   handleRemoteRedo (fst (clear s)) = fst (clear s) \<and>
   active (handleRealtimeMessage t_id t_ts s (m\<lparr>msg_type := ''clear''\<rparr>)) = [] \<and>
   undone (handleRealtimeMessage t_id t_ts s (m\<lparr>msg_type := ''clear''\<rparr>)) = [] \<and>
   redo (handleRealtimeMessage t_id t_ts s (m\<lparr>msg_type := ''clear''\<rparr>))
     = (handleRealtimeMessage t_id t_ts s (m\<lparr>msg_type := ''clear''\<rparr>), []) \<and>
   handleRemoteRedo (handleRealtimeMessage t_id t_ts s (m\<lparr>msg_type := ''clear''\<rparr>))
     = handleRealtimeMessage t_id t_ts s (m\<lparr>msg_type := ''clear''\<rparr>)"
proof -
  have local: "active (fst (clear s)) = []" "undone (fst (clear s)) = []"
    using clear_sequences [of s] by simp_all
  have remote:
    "active (handleRealtimeMessage t_id t_ts s (m\<lparr>msg_type := ''clear''\<rparr>)) = []"
    "undone (handleRealtimeMessage t_id t_ts s (m\<lparr>msg_type := ''clear''\<rparr>)) = []"
    by (simp_all add: handle_clear reset_arrays_sequences)
  show ?thesis
    using local remote redo_nothing [OF local(2)] redo_nothing [OF remote(2)]
    by simp
qed

theorem clear_empties_both_witness:
  "active (fst (clear oneUndone)) = [] \<and> undone (fst (clear oneUndone)) = [] \<and>
   redo (fst (clear oneUndone)) = (fst (clear oneUndone), []) \<and>
   undone (handleRealtimeMessage 3000 3000 oneUndone clearMsg) = [] \<and>
   handleRemoteRedo (handleRealtimeMessage 3000 3000 oneUndone clearMsg)
     = handleRealtimeMessage 3000 3000 oneUndone clearMsg"
  using clear_empties_both [where s = oneUndone and t_id = 3000 and t_ts = 3000 and m = clearMsg]
  by (simp add: clearMsg_def)

text \<open>
  C7. An inbound \<open>'undo'\<close> message moves the tail of the local \<open>active\<close> sequence onto
  \<open>undone\<close> (nothing when \<open>active\<close> is empty), and an inbound \<open>'redo'\<close> message moves the
  tail of the local \<open>undone\<close> sequence onto \<open>active\<close> (nothing when \<open>undone\<close> is empty),
  whatever operation id \<open>target\<close> the message references: the result does not mention it.
\<close>

theorem remote_undo_redo_use_local_tail:
  "arrays_apart s \<Longrightarrow>
     active (handleRealtimeMessage t_id t_ts s (m\<lparr>msg_type := ''undo'', msg_operationId := target\<rparr>))
       = butlast (active s) \<and>
     undone (handleRealtimeMessage t_id t_ts s (m\<lparr>msg_type := ''undo'', msg_operationId := target\<rparr>))
       = (if active s = [] then undone s else undone s @ [last (active s)]) \<and>
     undone (handleRealtimeMessage t_id t_ts s (m\<lparr>msg_type := ''redo'', msg_operationId := target\<rparr>))
       = butlast (undone s) \<and>
     active (handleRealtimeMessage t_id t_ts s (m\<lparr>msg_type := ''redo'', msg_operationId := target\<rparr>))
       = (if undone s = [] then active s else active s @ [last (undone s)])"
  using handleRemoteUndo_sequences [of s] handleRemoteRedo_sequences [of s]
  by (simp add: handleRealtimeMessage_def)

lemma active_oneUndone: "active oneUndone = []"
  using undo_sequences [OF oneStroke_apart] by (simp add: oneUndone_def active_oneStroke)

lemma undone_oneUndone:
  "undone oneUndone =
     [\<lparr>op_id = ''user-b-1000'', op_type = ''draw'', op_path = Some (Path pathP),
       op_timestamp = 1000, op_userId = ''user-b''\<rparr>]"
  using undo_sequences [OF oneStroke_apart]
  by (simp add: oneUndone_def active_oneStroke undone_oneStroke)

theorem remote_undo_redo_use_local_tail_witness:
  "arrays_apart oneStroke \<and>
   active (handleRealtimeMessage 2000 2000 oneStroke undoMsg) = [] \<and>
   undone (handleRealtimeMessage 2000 2000 oneStroke undoMsg) = active oneStroke \<and>
   arrays_apart oneUndone \<and>
   active (handleRealtimeMessage 2000 2000 oneUndone redoMsg) = undone oneUndone \<and>
   undone (handleRealtimeMessage 2000 2000 oneUndone redoMsg) = []"
proof -
  have u: "undoMsg\<lparr>msg_type := ''undo'', msg_operationId := Some ''no-such-operation''\<rparr> = undoMsg"
    by (simp add: undoMsg_def)
  have r: "redoMsg\<lparr>msg_type := ''redo'', msg_operationId := Some ''no-such-operation''\<rparr> = redoMsg"
    by (simp add: redoMsg_def)
  show ?thesis
    using remote_undo_redo_use_local_tail
            [OF oneStroke_apart, where m = undoMsg and target = "Some ''no-such-operation''"
               and t_id = 2000 and t_ts = 2000]
          remote_undo_redo_use_local_tail
            [OF oneUndone_apart, where m = redoMsg and target = "Some ''no-such-operation''"
               and t_id = 2000 and t_ts = 2000]
          oneStroke_apart oneUndone_apart
    by (simp add: u r active_oneStroke undone_oneStroke active_oneUndone undone_oneUndone)
qed

section \<open>Broadcast echo\<close>

text \<open>
  C9. An inbound broadcast payload whose \<open>userId\<close> is the receiving replica's own is not
  passed to the registered callback, and the replica's state stays as it was.
\<close>

theorem own_broadcast_ignored:
  "msg_userId payload = rt_userId (realtime s) \<Longrightarrow>
     broadcastHandler (realtime s) payload = None \<and> onBroadcast t_id t_ts payload s = s"
  by (simp add: broadcastHandler_def onBroadcast_def)

lemma realtime_joinedA:
  "realtime joinedA =
     \<lparr>rt_roomId = ''room-1'', rt_userId = ''user-a'', rt_username = ''QuickFox'',
      rt_userColor = ''#ef4444'', rt_channel = True, rt_onMessageCallback = True,
      rt_operationIndex = 0\<rparr>"
  by (simp add: joinedA_def join_against_def connectToRoom_def loadOperations_def
        select_reply_def listOrdered_def new_array_def Let_def connect_def
        setOperations_def redrawOperations_def
        replicaA_def new_CollaborativeCanvas_def new_RealtimeSync_def)

lemma suspended_joinedA: "suspended joinedA = []"
  by (simp add: joinedA_def join_against_def connectToRoom_def loadOperations_def
        select_reply_def listOrdered_def new_array_def Let_def connect_def
        setOperations_def redrawOperations_def
        replicaA_def new_CollaborativeCanvas_def)

theorem own_broadcast_ignored_witness:
  "msg_userId echoMsg = rt_userId (realtime joinedA) \<and>
   rt_onMessageCallback (realtime joinedA) \<and>
   broadcastHandler (realtime joinedA) echoMsg = None \<and>
   onBroadcast 1000 1000 echoMsg joinedA = joinedA"
proof -
  have own: "msg_userId echoMsg = rt_userId (realtime joinedA)"
    by (simp add: echoMsg_def realtime_joinedA)
  from own_broadcast_ignored [OF own, of 1000 1000] own
  show ?thesis by (simp add: realtime_joinedA)
qed

section \<open>New strokes and the redo stack\<close>

text \<open>
  A stroke completed locally (\<open>mouseup\<close> with a stroke in progress) leaves \<open>undone\<close>
  empty: the handler assigns a new empty array to \<open>undoneOperations\<close>.
\<close>

lemma mouseup_clears_undone:
  "isMouseDown s \<Longrightarrow> cv_isDrawing (canvas s) \<Longrightarrow> cv_currentPath (canvas s) \<noteq> [] \<Longrightarrow>
     undone (fst (mouseup t_id rnd t_ts s)) = []"
  by (simp add: mouseup_def stopDrawing_def new_array_def with_realtime_def sendDrawing_def
        undone_def Let_def split: prod.splits completion.splits)

text \<open>
  C2. Applying a new draw or erase operation, produced by a local stroke or received as
  a remote broadcast, should leave the \<open>undone\<close> sequence empty. The \<open>'draw'\<close> case of
  \<open>handleRealtimeMessage\<close> does not touch \<open>undoneOperations\<close>: replica A, holding one
  undone operation, receives user B's stroke and still holds that undone operation.
\<close>

theorem remote_draw_keeps_undone:
  "undone oneUndone =
     [\<lparr>op_id = ''user-b-1000'', op_type = ''draw'', op_path = Some (Path pathP),
       op_timestamp = 1000, op_userId = ''user-b''\<rparr>] \<and>
   undone (handleRealtimeMessage 2000 2000 oneUndone drawMsg) =
     [\<lparr>op_id = ''user-b-1000'', op_type = ''draw'', op_path = Some (Path pathP),
       op_timestamp = 1000, op_userId = ''user-b''\<rparr>]"
  using handle_draw_sequences [OF oneUndone_apart, of drawMsg pathP 2000 2000]
  by (simp add: undone_oneUndone drawMsg_def)

section \<open>Applying a message twice\<close>

text \<open>
  C3, as stated, fails: the same \<open>'draw'\<close> message applied a second time appends a second
  operation, so \<open>active\<close> after two applications differs from \<open>active\<close> after one.
\<close>

theorem second_delivery_counterexample:
  "active (handleRealtimeMessage 1000 1000 (handleRealtimeMessage 1000 1000 joinedA drawMsg) drawMsg)
     \<noteq> active (handleRealtimeMessage 1000 1000 joinedA drawMsg)"
proof -
  have "active (handleRealtimeMessage 1000 1000 oneStroke drawMsg)
          = active oneStroke @ [\<lparr>op_id = ''user-b-'' @ showInt 1000, op_type = ''draw'',
                                  op_path = Some (Path pathP), op_timestamp = 1000,
                                  op_userId = ''user-b''\<rparr>]"
    using handle_draw_sequences [OF oneStroke_apart, of drawMsg pathP 1000 1000]
    by (simp add: drawMsg_def pathP_def)
  then show ?thesis
    by (simp add: oneStroke_def)
qed

lemma butlast_twice: "butlast (butlast xs) = butlast xs \<longleftrightarrow> length xs \<le> 1"
proof
  assume "butlast (butlast xs) = butlast xs"
  then have "length (butlast (butlast xs)) = length (butlast xs)" by simp
  then show "length xs \<le> 1" by simp
next
  assume "length xs \<le> 1"
  then have "butlast xs = []" by (cases xs) auto
  then show "butlast (butlast xs) = butlast xs" by simp
qed

lemma butlast_empty_iff: "butlast xs = [] \<longleftrightarrow> length xs \<le> 1"
  by (cases xs) auto

lemma handle_undo: "msg_type m = ''undo'' \<Longrightarrow> handleRealtimeMessage t_id t_ts s m = handleRemoteUndo s"
  by (simp add: handleRealtimeMessage_def)

lemma handle_redo: "msg_type m = ''redo'' \<Longrightarrow> handleRealtimeMessage t_id t_ts s m = handleRemoteRedo s"
  by (simp add: handleRealtimeMessage_def)

lemma handle_clear_sequences:
  "msg_type m = ''clear'' \<Longrightarrow>
     active (handleRealtimeMessage t_id t_ts s m) = [] \<and>
     undone (handleRealtimeMessage t_id t_ts s m) = []"
  by (simp add: handleRealtimeMessage_def reset_arrays_sequences)

lemma handle_nothing:
  "msg_type m \<noteq> ''undo'' \<Longrightarrow> msg_type m \<noteq> ''redo'' \<Longrightarrow> msg_type m \<noteq> ''clear'' \<Longrightarrow>
   (msg_type m = ''draw'' \<Longrightarrow> msg_path m = None) \<Longrightarrow>
     handleRealtimeMessage t_id t_ts s m = s"
  by (simp add: handleRealtimeMessage_def)

text \<open>
  C3, amended. The code keeps no set of seen ids. Applying the same message a second
  time leaves \<open>active\<close> and \<open>undone\<close> as they were after the first application exactly
  when the message is not a \<open>'draw'\<close> that carries a path, not an \<open>'undo'\<close> that found two
  or more operations in \<open>active\<close>, and not a \<open>'redo'\<close> that found two or more in \<open>undone\<close>.
  So \<open>'clear'\<close> is idempotent, and every delivery of a stroke adds an operation.
\<close>

theorem second_application_noop_iff:
  assumes apart: "arrays_apart s"
  shows
    "(active (handleRealtimeMessage t3 t4 (handleRealtimeMessage t1 t2 s m) m)
        = active (handleRealtimeMessage t1 t2 s m) \<and>
      undone (handleRealtimeMessage t3 t4 (handleRealtimeMessage t1 t2 s m) m)
        = undone (handleRealtimeMessage t1 t2 s m))
     \<longleftrightarrow>
       \<not> (msg_type m = ''draw'' \<and> msg_path m \<noteq> None) \<and>
       \<not> (msg_type m = ''undo'' \<and> 2 \<le> length (active s)) \<and>
       \<not> (msg_type m = ''redo'' \<and> 2 \<le> length (undone s))"
proof -
  consider
      (draw) p where "msg_type m = ''draw''" "msg_path m = Some p"
    | (undo) "msg_type m = ''undo''"
    | (redo) "msg_type m = ''redo''"
    | (clear) "msg_type m = ''clear''"
    | (other) "msg_type m \<noteq> ''undo''" "msg_type m \<noteq> ''redo''" "msg_type m \<noteq> ''clear''"
        "msg_type m = ''draw'' \<Longrightarrow> msg_path m = None"
    by (cases "msg_path m") auto
  then show ?thesis
  proof cases
    case draw
    have "arrays_apart (handleRealtimeMessage t1 t2 s m)"
      by (rule handleRealtimeMessage_apart [OF apart])
    from handle_draw_sequences [OF this draw, of t3 t4] draw
    show ?thesis by simp
  next
    case undo
    have "arrays_apart (handleRemoteUndo s)"
      by (rule handleRemoteUndo_apart [OF apart])
    from handleRemoteUndo_sequences [OF this] handleRemoteUndo_sequences [OF apart] undo
    show ?thesis
      using butlast_twice [of "active s"] butlast_empty_iff [of "active s"]
      by (cases "length (active s) \<le> 1") (simp_all add: handle_undo)
  next
    case redo
    have "arrays_apart (handleRemoteRedo s)"
      by (rule handleRemoteRedo_apart [OF apart])
    from handleRemoteRedo_sequences [OF this] handleRemoteRedo_sequences [OF apart] redo
    show ?thesis
      using butlast_twice [of "undone s"] butlast_empty_iff [of "undone s"]
      by (cases "length (undone s) \<le> 1") (simp_all add: handle_redo)
  next
    case clear
    then show ?thesis
      by (simp add: handle_clear_sequences)
  next
    case other
    then show ?thesis
      by (auto simp: handle_nothing)
  qed
qed

theorem second_application_noop_iff_witness:
  "arrays_apart oneUndone \<and>
   active (handleRealtimeMessage 3001 3001 (handleRealtimeMessage 3000 3000 oneUndone clearMsg) clearMsg)
     = active (handleRealtimeMessage 3000 3000 oneUndone clearMsg) \<and>
   undone (handleRealtimeMessage 3001 3001 (handleRealtimeMessage 3000 3000 oneUndone clearMsg) clearMsg)
     = undone (handleRealtimeMessage 3000 3000 oneUndone clearMsg) \<and>
   arrays_apart joinedA \<and>
   \<not> (active (handleRealtimeMessage 1001 1001 (handleRealtimeMessage 1000 1000 joinedA drawMsg) drawMsg)
        = active (handleRealtimeMessage 1000 1000 joinedA drawMsg) \<and>
      undone (handleRealtimeMessage 1001 1001 (handleRealtimeMessage 1000 1000 joinedA drawMsg) drawMsg)
        = undone (handleRealtimeMessage 1000 1000 joinedA drawMsg))"
  using second_application_noop_iff
          [OF oneUndone_apart, where m = clearMsg and ?t1.0 = 3000 and ?t2.0 = 3000
             and ?t3.0 = 3001 and ?t4.0 = 3001]
        second_application_noop_iff
          [OF joinedA_apart, where m = drawMsg and ?t1.0 = 1000 and ?t2.0 = 1000
             and ?t3.0 = 1001 and ?t4.0 = 1001]
        oneUndone_apart joinedA_apart
  by (simp add: clearMsg_def drawMsg_def)

section \<open>What goes on the wire and into the log\<close>

text \<open>The counter of a replica stays between 0 and \<open>2^53\<close>.\<close>

lemma reachable_counter:
  "reachable s \<Longrightarrow>
     0 \<le> rt_operationIndex (realtime s) \<and> rt_operationIndex (realtime s) \<le> 9007199254740992"
proof (induction rule: reachable.induct)
  case (constructed uid uname ucolor rid)
  show ?case by (simp add: new_CollaborativeCanvas_def new_RealtimeSync_def)
next
  case (connected s room reply calls)
  then show ?case
    by (cases calls)
       (simp_all add: connectToRoom_def new_array_def connect_def Let_def
          split: awaited.splits prod.splits completion.splits)
next
  case (sender_resumed s n sent)
  then show ?case
    by (simp add: resume_sender_def Let_def split: awaited.splits)
next
  case (tool_chosen s tool)
  then show ?case by simp
next
  case (color_chosen s color)
  then show ?case by simp
next
  case (width_chosen s width)
  then show ?case by simp
next
  case (mouse_down s x y)
  then show ?case by (simp add: mousedown_def)
next
  case (mouse_move s t_id rnd t_ts now x y)
  then show ?case
    by (auto simp: mousemove_def draw_def with_realtime_def sendDrawing_def sendCursor_def
          incremented_def Let_def split: prod.splits option.splits if_splits)
next
  case (mouse_up s t_id rnd t_ts)
  then show ?case
    by (auto simp: mouseup_def stopDrawing_def new_array_def with_realtime_def sendDrawing_def
          incremented_def Let_def split: prod.splits option.splits if_splits)
next
  case (mouse_leave s t_id rnd t_ts)
  then show ?case
    by (auto simp: mouseleave_def mouseup_def stopDrawing_def new_array_def with_realtime_def
          sendDrawing_def incremented_def Let_def split: prod.splits option.splits if_splits)
next
  case (undo_clicked s)
  then show ?case
    by (auto simp: undo_def array_pop_def with_realtime_def sendUndo_def incremented_def Let_def
          split: prod.splits list.splits completion.splits if_splits)
next
  case (redo_clicked s)
  then show ?case
    by (auto simp: redo_def array_pop_def with_realtime_def sendRedo_def incremented_def Let_def
          split: prod.splits list.splits completion.splits if_splits)
next
  case (clear_clicked s)
  then show ?case
    by (auto simp: clear_def reset_arrays_def new_array_def with_realtime_def sendClear_def
          incremented_def Let_def split: prod.splits if_splits)
next
  case (broadcast_received s t_id t_ts payload)
  then show ?case
    by (simp add: onBroadcast_def handleRealtimeMessage_def handleRemoteUndo_def
          handleRemoteRedo_def reset_arrays_def new_array_def array_pop_def Let_def
          split: option.splits list.splits)
qed





text \<open>
  Senders that overlap: replica A clicks clear twice before either send has settled.
  Both rows are then handed to the log with the key 2.
\<close>

lemma overlapping_senders_store_equal_keys:
  "map ins_operation_index
     (logged (snd (resume_sender 0 (Resolved ()) twoClears) @
              snd (resume_sender 0 (Resolved ()) (fst (resume_sender 0 (Resolved ()) twoClears)))))
     = [2, 2]"
  by (simp add: twoClears_def clear_def with_realtime_def sendClear_def reset_arrays_def
        new_array_def resume_sender_def saveOperation_def logged_def incremented_def
        realtime_joinedA suspended_joinedA Let_def)

section \<open>Joining a room\<close>

text \<open>
  C8, as stated, fails: when the history query resolves with an error, replica A's
  \<open>connectToRoom\<close> ends with the status \<open>Connected\<close> and an empty \<open>active\<close> sequence.
\<close>

theorem failed_fetch_counterexample:
  "snd (connectToRoom (Resolved ()) failedQuery Subscribed replicaA) = ''Connected'' \<and>
   active (fst (connectToRoom (Resolved ()) failedQuery Subscribed replicaA)) = []"
  by (simp add: connectToRoom_def loadOperations_def failedQuery_def new_array_def
        setOperations_def redrawOperations_def connect_def active_def Let_def)

text \<open>
  C8, amended. When the history query resolves with an error, \<open>loadOperations\<close> answers
  with the empty array, and the join does not fail on that account: with the room call
  and the channel calls returning, it completes with the status \<open>Connected\<close> and an empty
  \<open>active\<close> sequence.
\<close>

theorem failed_fetch_joins_empty:
  "qr_error r \<noteq> None \<Longrightarrow>
     loadOperations (Resolved r) = Resolved [] \<and>
     snd (connectToRoom (Resolved ()) (Resolved r) Subscribed s) = ''Connected'' \<and>
     active (fst (connectToRoom (Resolved ()) (Resolved r) Subscribed s)) = []"
  by (simp add: connectToRoom_def loadOperations_def new_array_def setOperations_def
        redrawOperations_def connect_def active_def Let_def)

theorem failed_fetch_joins_empty_witness:
  "loadOperations failedQuery = Resolved [] \<and>
   snd (connectToRoom (Resolved ()) failedQuery Subscribed replicaA) = ''Connected'' \<and>
   active (fst (connectToRoom (Resolved ()) failedQuery Subscribed replicaA)) = []"
proof -
  have err: "qr_error \<lparr>qr_data = None, qr_error = Some ''permission denied''\<rparr> \<noteq> None"
    by simp
  from failed_fetch_joins_empty [OF err, where s = replicaA]
  show ?thesis
    by (simp add: failedQuery_def)
qed

text \<open>
  The other ways into the \<open>catch\<close> block. A rejected \<open>getOrCreateRoom\<close> or query leaves the
  replica as it was. A stored path that \<open>drawPath\<close> cannot read makes \<open>setOperations\<close>
  throw after \<open>this.operations\<close> has been replaced and before \<open>connect\<close> is called. A
  throwing channel call leaves the loaded operations and the callback in place.
\<close>

lemma connection_error_paths:
  "connectToRoom Rejected reply calls s = (s, ''Connection Error'') \<and>
   connectToRoom (Resolved ()) Rejected calls s = (s, ''Connection Error'') \<and>
   snd (connectToRoom (Resolved ()) (select_reply ''room-1'' [rowUnreadable]) calls replicaA)
     = ''Connection Error'' \<and>
   map op_id
     (active (fst (connectToRoom (Resolved ()) (select_reply ''room-1'' [rowUnreadable]) calls
                     replicaA)))
     = [''0b9d6c1e-5a2f-4c3b-8e7d-000000000003''] \<and>
   \<not> rt_onMessageCallback
       (realtime (fst (connectToRoom (Resolved ()) (select_reply ''room-1'' [rowUnreadable])
                         calls replicaA))) \<and>
   snd (connectToRoom (Resolved ()) (select_reply ''room-1'' []) ChannelThrows replicaA)
     = ''Connection Error''"
  by (simp add: connectToRoom_def loadOperations_def select_reply_def listOrdered_def
        rowToOperation_def rowUnreadable_def new_array_def setOperations_def
        redrawOperations_def connect_def active_def Let_def replicaA_def
        new_CollaborativeCanvas_def new_RealtimeSync_def)

text \<open>
  What a join does with the log: every row of the room, in ascending order of
  \<open>operation_index\<close>, becomes one element of \<open>active\<close>, whatever its \<open>operation_type\<close>.
\<close>

lemma those_rowToOperation:
  "those (map rowToOperation rows) = Some records \<Longrightarrow>
     map op_id records = map row_id rows \<and>
     map op_type records = map row_operation_type rows"
proof (induction rows arbitrary: records)
  case Nil
  then show ?case by simp
next
  case (Cons r rows)
  then show ?case
    by (auto simp: rowToOperation_def split: option.splits)
qed

lemma loadOperations_select:
  "those (map rowToOperation (listOrdered rid table)) = Some records \<Longrightarrow>
     loadOperations (select_reply rid table) = Resolved records"
  by (simp add: loadOperations_def select_reply_def)

lemma join_against_active:
  "those (map rowToOperation (listOrdered (rt_roomId (realtime s)) table)) = Some records \<Longrightarrow>
     active (fst (join_against table s)) = records \<and>
     (snd (join_against table s) = ''Connected''
        \<longleftrightarrow> Some Unreadable \<notin> set (map op_path records))"
  using connectToRoom_status
          [of "select_reply (rt_roomId (realtime s)) table" records Subscribed s]
  by (simp add: join_against_def connectToRoom_active loadOperations_select)

lemma listOrdered_logDrawUndo: "listOrdered ''room-1'' logDrawUndo = [rowDraw, rowUndo]"
  by (simp add: listOrdered_def logDrawUndo_def rowDraw_def rowUndo_def)

lemma records_logDrawUndo:
  "those (map rowToOperation (listOrdered ''room-1'' logDrawUndo)) =
     Some [\<lparr>op_id = ''0b9d6c1e-5a2f-4c3b-8e7d-000000000001'', op_type = ''draw'', op_path = Some (Path pathP),
             op_timestamp = 1000, op_userId = ''user-b''\<rparr>,
           \<lparr>op_id = ''0b9d6c1e-5a2f-4c3b-8e7d-000000000002'', op_type = ''undo'', op_path = None,
             op_timestamp = 2000, op_userId = ''user-b''\<rparr>]"
  by (simp add: listOrdered_logDrawUndo rowToOperation_def rowDraw_def rowUndo_def)

lemma roomId_replicaA: "rt_roomId (realtime replicaA) = ''room-1''"
  by (simp add: replicaA_def new_CollaborativeCanvas_def new_RealtimeSync_def)

lemma roomId_undo: "rt_roomId (realtime (fst (undo s))) = rt_roomId (realtime s)"
  by (simp add: undo_def with_realtime_def sendUndo_def array_pop_def Let_def
        split: prod.splits list.splits completion.splits)

lemma roomId_handle:
  "rt_roomId (realtime (handleRealtimeMessage t_id t_ts s m)) = rt_roomId (realtime s)"
  by (simp add: handleRealtimeMessage_def handleRemoteUndo_def handleRemoteRedo_def
        reset_arrays_def new_array_def array_pop_def Let_def
        split: option.splits list.splits)

lemma roomId_oneUndone: "rt_roomId (realtime oneUndone) = ''room-1''"
  by (simp add: oneUndone_def oneStroke_def roomId_undo roomId_handle realtime_joinedA)

text \<open>
  C1. A join should fold every record of the log (draw, erase, clear, undo, redo) with
  the fold rule of section 4.3. Against the log that holds user B's stroke and user B's
  undo of it, the fold rule gives the empty \<open>active\<close> sequence; \<open>connectToRoom\<close> gives
  two elements, the stroke and the undo record itself.
\<close>

theorem join_keeps_undo_record:
  "active (fst (join_against logDrawUndo replicaA)) =
     [\<lparr>op_id = ''0b9d6c1e-5a2f-4c3b-8e7d-000000000001'', op_type = ''draw'', op_path = Some (Path pathP),
       op_timestamp = 1000, op_userId = ''user-b''\<rparr>,
      \<lparr>op_id = ''0b9d6c1e-5a2f-4c3b-8e7d-000000000002'', op_type = ''undo'', op_path = None,
       op_timestamp = 2000, op_userId = ''user-b''\<rparr>] \<and>
   spec_join_active ''room-1'' logDrawUndo = Some []"
proof -
  have "spec_join_active ''room-1'' logDrawUndo = Some []"
    by (simp add: spec_join_active_def records_logDrawUndo spec_fold_def spec_fold_rule_def)
  then show ?thesis
    using join_against_active [of replicaA logDrawUndo] records_logDrawUndo
    by (simp add: roomId_replicaA)
qed

text \<open>
  The part of C1 that the code does keep: two replicas of a room that join against the
  same log content end with the same \<open>active\<close> sequence, whatever they held before.
\<close>

lemma join_loads_every_record:
  assumes "those (map rowToOperation (listOrdered (rt_roomId (realtime s)) table)) = Some records"
    and "rt_roomId (realtime s') = rt_roomId (realtime s)"
  shows "active (fst (join_against table s)) = records \<and>
         (snd (join_against table s) = ''Connected''
            \<longleftrightarrow> Some Unreadable \<notin> set (map op_path records)) \<and>
         map op_id records = map row_id (listOrdered (rt_roomId (realtime s)) table) \<and>
         map op_type records = map row_operation_type (listOrdered (rt_roomId (realtime s)) table) \<and>
         sorted (map row_operation_index (listOrdered (rt_roomId (realtime s)) table)) \<and>
         active (fst (join_against table s')) = active (fst (join_against table s))"
proof -
  have "sorted (map row_operation_index (listOrdered (rt_roomId (realtime s)) table))"
    by (simp add: listOrdered_def)
  moreover have "those (map rowToOperation (listOrdered (rt_roomId (realtime s')) table)) = Some records"
    using assms by simp
  ultimately show ?thesis
    using join_against_active [of s table records] join_against_active [of s' table records]
      those_rowToOperation [OF assms(1)] assms(1)
    by simp
qed

lemma join_loads_every_record_example:
  "active (fst (join_against logDrawUndo replicaA)) =
     [\<lparr>op_id = ''0b9d6c1e-5a2f-4c3b-8e7d-000000000001'', op_type = ''draw'', op_path = Some (Path pathP),
       op_timestamp = 1000, op_userId = ''user-b''\<rparr>,
      \<lparr>op_id = ''0b9d6c1e-5a2f-4c3b-8e7d-000000000002'', op_type = ''undo'', op_path = None,
       op_timestamp = 2000, op_userId = ''user-b''\<rparr>] \<and>
   active (fst (join_against logDrawUndo oneUndone)) = active (fst (join_against logDrawUndo replicaA)) \<and>
   active oneUndone \<noteq> undone oneUndone"
proof -
  have rec: "those (map rowToOperation (listOrdered (rt_roomId (realtime replicaA)) logDrawUndo)) =
     Some [\<lparr>op_id = ''0b9d6c1e-5a2f-4c3b-8e7d-000000000001'', op_type = ''draw'', op_path = Some (Path pathP),
             op_timestamp = 1000, op_userId = ''user-b''\<rparr>,
           \<lparr>op_id = ''0b9d6c1e-5a2f-4c3b-8e7d-000000000002'', op_type = ''undo'', op_path = None,
             op_timestamp = 2000, op_userId = ''user-b''\<rparr>]"
    by (simp add: roomId_replicaA records_logDrawUndo)
  have room: "rt_roomId (realtime oneUndone) = rt_roomId (realtime replicaA)"
    by (simp add: roomId_replicaA roomId_oneUndone)
  from join_loads_every_record [OF rec room]
  show ?thesis
    by (simp add: active_oneUndone undone_oneUndone)
qed

section \<open>The array shared after a join\<close>

text \<open>
  After \<open>connectToRoom\<close>, \<open>this.operations\<close> and the \<open>CanvasDrawing\<close>'s \<open>operations\<close> are
  one array: a stroke completed locally is pushed onto it by \<open>stopDrawing\<close> and again by
  the \<open>mouseup\<close> handler. Before the join the arrays are separate and it is pushed once.
\<close>

lemma stroke_after_join_is_pushed_twice:
  "map op_id (active (fst (mouseup 1001 ''k3j9x2m1q'' 1002 (mousedown 10 20 joinedA))))
     = [''1001-k3j9x2m1q'', ''1001-k3j9x2m1q''] \<and>
   map op_id (active (fst (mouseup 1001 ''k3j9x2m1q'' 1002 (mousedown 10 20 replicaA))))
     = [''1001-k3j9x2m1q'']"
  by (simp add: mouseup_def mousedown_def stopDrawing_def startDrawing_def new_array_def
        with_realtime_def sendDrawing_def array_push_def active_def Let_def
        joinedA_def join_against_def connectToRoom_def loadOperations_def select_reply_def
        listOrdered_def setOperations_def redrawOperations_def canvas_clear_def connect_def
        replicaA_def new_CollaborativeCanvas_def new_CanvasDrawing_def new_RealtimeSync_def
        generateId_def showInt_def digits10.simps split: prod.splits)

end
